theory Spec2Isabelle
  imports Complex_Main "HOL-Library.AList" "HOL-Library.List_Lexorder" "HOL-Library.Char_ord"
begin

section \<open>Investigation board: note position manager and text truncation\<close>

text \<open>
  A shallow embedding of \<^verbatim>\<open>scripts/investigation-board.js\<close>: the class
  \<^verbatim>\<open>NotePositionManager\<close> (the cache \<^verbatim>\<open>this.positions\<close>, the hook handlers, the
  socket handler, the queries) and the character-limit functions used by
  \<^verbatim>\<open>CustomDrawing._truncateText\<close>.

  Conventions of the model.
  \<^item> A JavaScript property that may be \<^verbatim>\<open>undefined\<close> is an \<open>option\<close>; \<open>None\<close> is
    \<^verbatim>\<open>undefined\<close> (or \<^verbatim>\<open>null\<close> for the \<^verbatim>\<open>position\<close> of a socket message).
  \<^item> A number stored in a record is a real (\<^verbatim>\<open>NaN\<close>, \<^verbatim>\<open>-0\<close> and the infinities cannot be
    stored there). Computed numbers, where \<^verbatim>\<open>NaN\<close> and \<^verbatim>\<open>Infinity\<close> decide the result,
    have a type of their own, and the rounding of the distance computation is a
    parameter.
  \<^item> A string is a list of code units, each below 256.
  \<^item> The object \<^verbatim>\<open>this.positions\<close> is an association list in insertion order, which
    is the order of \<^verbatim>\<open>Object.values\<close> and \<^verbatim>\<open>Object.entries\<close> for keys that are not
    canonical array indices (the host's document ids are 16 alphanumeric characters).
    Assigning an existing key keeps its place, assigning a new key appends, as
    \<^const>\<open>AList.update\<close> does; \<^verbatim>\<open>delete\<close> is \<^const>\<open>AList.delete\<close>.
  \<^item> An \<^verbatim>\<open>async\<close> method runs to completion; what the host does between two
    \<^verbatim>\<open>await\<close>s is not modelled.
\<close>

subsection \<open>Data\<close>

text \<open>The \<^verbatim>\<open>position\<close> object built by \<^verbatim>\<open>updatePosition\<close>, stored in the scene flag and
  sent over the socket.\<close>

record noteRecord =
  n_id :: "string option"
  n_x :: "real option"
  n_y :: "real option"
  n_rotation :: "real option"
  n_z :: "real option"
  n_width :: "real option"
  n_height :: "real option"
  n_scaleX :: "real option"
  n_scaleY :: "real option"
  n_type :: "string option"
  n_text :: "string option"
  n_image :: "string option"
  n_pinColor :: "string option"
  n_identityName :: "string option"
  n_updated :: "nat option"

type_synonym positions = "(string \<times> noteRecord) list"

text \<open>A drawing document of the host, the \<^verbatim>\<open>document\<close> of the hook handlers and the
  \<^verbatim>\<open>drawing.document\<close> of \<^verbatim>\<open>loadPositions\<close>. \<open>d_flags\<close> is \<^verbatim>\<open>flags["investigation-board"]\<close>;
  the object \<^verbatim>\<open>flags\<close> itself is always there.\<close>

record shape =
  sh_width :: "real option"
  sh_height :: "real option"

record transform =
  tr_scaleX :: "real option"
  tr_scaleY :: "real option"

record boardFlags =
  f_type :: "string option"
  f_text :: "string option"
  f_image :: "string option"
  f_pinColor :: "string option"
  f_identityName :: "string option"

record drawingDocument =
  d_id :: string
  d_x :: "real option"
  d_y :: "real option"
  d_rotation :: "real option"
  d_z :: "real option"
  d_shape :: "shape option"
  d_transform :: "transform option"
  d_flags :: "boardFlags option"

text \<open>A drawing on the canvas, what \<^verbatim>\<open>canvas.drawings.get(id)\<close> returns: the properties
  \<^verbatim>\<open>loadPositions\<close> reads from the canvas object itself (\<^verbatim>\<open>drawing.x\<close>, \<^verbatim>\<open>drawing.shape?.width\<close>,
  \<^verbatim>\<open>drawing.transform?.scaleX\<close>, \<^verbatim>\<open>drawing.flags["investigation-board"]?.type\<close>, ...) and its
  document, which is what \<^verbatim>\<open>loadPositions\<close> writes to.\<close>

record drawing =
  p_x :: "real option"
  p_y :: "real option"
  p_rotation :: "real option"
  p_z :: "real option"
  p_shape :: "shape option"
  p_transform :: "transform option"
  p_flags :: "boardFlags option"
  p_document :: drawingDocument

text \<open>The \<^verbatim>\<open>updateData\<close> object of a document update, one field per key path
  (\<^verbatim>\<open>x\<close>, \<^verbatim>\<open>shape.width\<close>, \<^verbatim>\<open>transform.scaleX\<close>, \<^verbatim>\<open>flags.investigation-board.type\<close>, ...);
  \<open>None\<close> is an absent key.\<close>

record updateData =
  u_x :: "real option"
  u_y :: "real option"
  u_rotation :: "real option"
  u_z :: "real option"
  u_shape_width :: "real option"
  u_shape_height :: "real option"
  u_scaleX :: "real option"
  u_scaleY :: "real option"
  u_type :: "string option"
  u_text :: "string option"
  u_image :: "string option"
  u_pinColor :: "string option"
  u_identityName :: "string option"

record options =
  noSocket :: bool

text \<open>The payload of the socket call \<^verbatim>\<open>updateNotePosition\<close>: \<^verbatim>\<open>{ id, position }\<close>.\<close>

record positionMessage =
  m_id :: "string option"
  m_position :: "noteRecord option"

text \<open>\<^verbatim>\<open>canvas.scene\<close> with its flag \<^verbatim>\<open>notePositions\<close>. \<open>rejects\<close> says whether the host
  rejects \<^verbatim>\<open>setFlag\<close> (for instance for a user who may not edit the scene).\<close>

record scene =
  notePositions :: "positions option"
  rejects :: bool

datatype renderCall = Refresh string | Update string updateData

record engine =
  positions :: positions
  scene :: "scene option"
  drawings :: "string \<rightharpoonup> drawing"
  socket :: bool
  game_user_id :: string
  sent :: "positionMessage list"
  emitted :: "string list"
  rendered :: "renderCall list"
  logged :: "string list"

subsection \<open>The position manager\<close>

text \<open>\<^verbatim>\<open>emit(event, data)\<close> calls the listeners registered with \<^verbatim>\<open>on\<close>. The
  listeners come from the callers of the module; the model records the name of the event.\<close>

definition emit :: "string \<Rightarrow> engine \<Rightarrow> engine" where
  "emit event s = s\<lparr>emitted := emitted s @ [event]\<rparr>"

text \<open>\<^verbatim>\<open>onExternalPositionUpdate(data)\<close>: the guard \<^verbatim>\<open>data.id && data.position\<close>, the
  assignment, the event, and \<^verbatim>\<open>drawing.refresh()\<close> when the drawing is on the canvas.\<close>

definition onExternalPositionUpdate :: "positionMessage \<Rightarrow> engine \<Rightarrow> engine" where
  "onExternalPositionUpdate data s =
     (case (m_id data, m_position data) of
        (Some i, Some position) \<Rightarrow>
          if i \<noteq> [] then
            (let s1 = s\<lparr>positions := AList.update i position (positions s)\<rparr>;
                 s2 = emit ''positionsUpdated'' s1
             in case drawings s2 i of
                  Some d \<Rightarrow> s2\<lparr>rendered := rendered s2 @ [Refresh i]\<rparr>
                | None \<Rightarrow> s2)
          else s
      | _ \<Rightarrow> s)"

text \<open>\<^verbatim>\<open>canvas.scene.setFlag(MODULE_ID, "notePositions", value)\<close>: the promise either
  resolves, with the flag written, or rejects.\<close>

definition setFlag :: "scene \<Rightarrow> positions \<Rightarrow> string + scene" where
  "setFlag sc value =
     (if rejects sc then Inl ''setFlag rejected''
      else Inr (sc\<lparr>notePositions := Some value\<rparr>))"

definition savePositions :: "engine \<Rightarrow> engine" where
  "savePositions s =
     (case scene s of
        None \<Rightarrow> s
      | Some sc \<Rightarrow>
          (case setFlag sc (positions s) of
             Inr sc' \<Rightarrow> s\<lparr>scene := Some sc'\<rparr>
           | Inl err \<Rightarrow>
               s\<lparr>logged := logged s @ [''investigation-board | Error saving note positions:'']\<rparr>))"

text \<open>\<^verbatim>\<open>a || b\<close> for a number and for a string.\<close>

definition or_num :: "real option \<Rightarrow> real \<Rightarrow> real" where
  "or_num v dflt = (case v of None \<Rightarrow> dflt | Some r \<Rightarrow> if r = 0 then dflt else r)"

definition or_str :: "string option \<Rightarrow> string \<Rightarrow> string" where
  "or_str v dflt = (case v of None \<Rightarrow> dflt | Some t \<Rightarrow> if t = [] then dflt else t)"

text \<open>The object literal of \<^verbatim>\<open>updatePosition\<close>; \<open>now\<close> is the reading of \<^verbatim>\<open>Date.now()\<close>.\<close>

definition positionOf :: "nat \<Rightarrow> drawingDocument \<Rightarrow> noteRecord" where
  "positionOf now document =
     \<lparr> n_id = Some (d_id document),
       n_x = d_x document,
       n_y = d_y document,
       n_rotation = Some (or_num (d_rotation document) 0),
       n_z = Some (or_num (d_z document) 0),
       n_width = (case d_shape document of None \<Rightarrow> None | Some sh \<Rightarrow> sh_width sh),
       n_height = (case d_shape document of None \<Rightarrow> None | Some sh \<Rightarrow> sh_height sh),
       n_scaleX = Some (or_num (case d_transform document of None \<Rightarrow> None | Some t \<Rightarrow> tr_scaleX t) 1),
       n_scaleY = Some (or_num (case d_transform document of None \<Rightarrow> None | Some t \<Rightarrow> tr_scaleY t) 1),
       n_type = Some (or_str (case d_flags document of None \<Rightarrow> None | Some f \<Rightarrow> f_type f) ''sticky''),
       n_text = Some (or_str (case d_flags document of None \<Rightarrow> None | Some f \<Rightarrow> f_text f) ''''),
       n_image = Some (or_str (case d_flags document of None \<Rightarrow> None | Some f \<Rightarrow> f_image f) ''''),
       n_pinColor = Some (or_str (case d_flags document of None \<Rightarrow> None | Some f \<Rightarrow> f_pinColor f) ''''),
       n_identityName =
         Some (or_str (case d_flags document of None \<Rightarrow> None | Some f \<Rightarrow> f_identityName f) ''''),
       n_updated = Some now \<rparr>"

definition updatePosition :: "nat \<Rightarrow> drawingDocument \<Rightarrow> string \<Rightarrow> engine \<Rightarrow> engine" where
  "updatePosition now document userId s =
     (let position = positionOf now document;
          s1 = s\<lparr>positions := AList.update (d_id document) position (positions s)\<rparr>;
          s2 = savePositions s1;
          s3 = emit ''positionsUpdated'' s2
      in if socket s3 \<and> game_user_id s3 = userId
         then s3\<lparr>sent := sent s3 @ [\<lparr>m_id = Some (d_id document), m_position = Some position\<rparr>]\<rparr>
         else s3)"

definition hasPositionChange :: "updateData \<Rightarrow> bool" where
  "hasPositionChange u \<longleftrightarrow>
     u_x u \<noteq> None \<or> u_y u \<noteq> None \<or> u_rotation u \<noteq> None \<or> u_z u \<noteq> None \<or>
     u_scaleX u \<noteq> None \<or> u_scaleY u \<noteq> None"

definition hasShapeChange :: "updateData \<Rightarrow> bool" where
  "hasShapeChange u \<longleftrightarrow> u_shape_width u \<noteq> None \<or> u_shape_height u \<noteq> None"

definition hasFlagChanges :: "updateData \<Rightarrow> bool" where
  "hasFlagChanges u \<longleftrightarrow>
     u_type u \<noteq> None \<or> u_text u \<noteq> None \<or> u_image u \<noteq> None \<or> u_pinColor u \<noteq> None \<or>
     u_identityName u \<noteq> None"

definition onNoteUpdate :: "nat \<Rightarrow> drawingDocument \<Rightarrow> updateData \<Rightarrow> options \<Rightarrow> string \<Rightarrow> engine \<Rightarrow> engine" where
  "onNoteUpdate now document u opts userId s =
     (if noSocket opts then s
      else if d_flags document \<noteq> None then
        (if hasPositionChange u \<or> hasShapeChange u \<or> hasFlagChanges u
         then updatePosition now document userId s
         else s)
      else s)"

definition onNoteCreate :: "nat \<Rightarrow> drawingDocument \<Rightarrow> options \<Rightarrow> string \<Rightarrow> engine \<Rightarrow> engine" where
  "onNoteCreate now document opts userId s =
     (if d_flags document \<noteq> None then updatePosition now document userId s else s)"

definition onNoteDelete :: "drawingDocument \<Rightarrow> options \<Rightarrow> string \<Rightarrow> engine \<Rightarrow> engine" where
  "onNoteDelete document opts userId s =
     (if d_flags document \<noteq> None \<and> map_of (positions s) (d_id document) \<noteq> None then
        (let s1 = s\<lparr>positions := AList.delete (d_id document) (positions s)\<rparr>;
             s2 = savePositions s1;
             s3 = emit ''positionsUpdated'' s2
         in if socket s3 \<and> game_user_id s3 = userId
            then s3\<lparr>sent := sent s3 @ [\<lparr>m_id = Some (d_id document), m_position = None\<rparr>]\<rparr>
            else s3)
      else s)"

subsection \<open>Queries\<close>

text \<open>\<^verbatim>\<open>String.prototype.toLowerCase\<close> on code units below 256: the letters A to Z and
  the accented capitals 192 to 222 (but not the multiplication sign 215) move up by 32.\<close>

definition toLowerCase_unit :: "char \<Rightarrow> char" where
  "toLowerCase_unit c =
     (let n = (of_char c :: nat)
      in if (65 \<le> n \<and> n \<le> 90) \<or> (192 \<le> n \<and> n \<le> 222 \<and> n \<noteq> 215)
         then char_of (n + 32) else c)"

definition toLowerCase :: "string \<Rightarrow> string" where
  "toLowerCase t = map toLowerCase_unit t"

text \<open>\<^verbatim>\<open>t.includes(q)\<close>: \<open>q\<close> occurs in \<open>t\<close> at some position.\<close>

fun str_includes :: "string \<Rightarrow> string \<Rightarrow> bool" where
  "str_includes [] q = (q = [])"
| "str_includes (c # cs) q = (take (length q) (c # cs) = q \<or> str_includes cs q)"

definition searchNotesByText :: "string \<Rightarrow> engine \<Rightarrow> noteRecord list" where
  "searchNotesByText searchText s =
     filter (\<lambda>pos. case n_text pos of
                      None \<Rightarrow> False
                    | Some t \<Rightarrow> t \<noteq> [] \<and> str_includes (toLowerCase t) (toLowerCase searchText))
            (map snd (positions s))"

text \<open>The distance computation of \<^verbatim>\<open>findNearestNote\<close> is done in double precision. A
  double is \<^verbatim>\<open>NaN\<close>, an infinity or a finite value. How the operations \<^verbatim>\<open>-\<close>, \<^verbatim>\<open>*\<close>,
  \<^verbatim>\<open>+\<close> and \<^verbatim>\<open>Math.sqrt\<close> round and overflow is left open: the functions take the four
  operations as a parameter, and what is proved of them holds for every choice, the
  IEEE operations among them. The comparison \<^verbatim>\<open><\<close> of two doubles is exact, and false
  when one of them is \<^verbatim>\<open>NaN\<close>.\<close>

datatype jsnum = NaN | PosInf | NegInf | Fin real

record floatOps =
  f_minus :: "jsnum \<Rightarrow> jsnum \<Rightarrow> jsnum"
  f_times :: "jsnum \<Rightarrow> jsnum \<Rightarrow> jsnum"
  f_plus :: "jsnum \<Rightarrow> jsnum \<Rightarrow> jsnum"
  f_sqrt :: "jsnum \<Rightarrow> jsnum"

fun js_less :: "jsnum \<Rightarrow> jsnum \<Rightarrow> bool" where
  "js_less (Fin a) (Fin b) = (a < b)"
| "js_less NegInf (Fin b) = True"
| "js_less NegInf PosInf = True"
| "js_less (Fin a) PosInf = True"
| "js_less a b = False"

text \<open>A coordinate read from a record: \<^verbatim>\<open>undefined\<close> becomes \<^verbatim>\<open>NaN\<close> in the subtraction.\<close>

definition num_of :: "real option \<Rightarrow> jsnum" where
  "num_of v = (case v of None \<Rightarrow> NaN | Some r \<Rightarrow> Fin r)"

definition distanceTo :: "floatOps \<Rightarrow> jsnum \<Rightarrow> jsnum \<Rightarrow> noteRecord \<Rightarrow> jsnum" where
  "distanceTo ops x y pos =
     (let dx = f_minus ops (num_of (n_x pos)) x;
          dy = f_minus ops (num_of (n_y pos)) y
      in f_sqrt ops (f_plus ops (f_times ops dx dx) (f_times ops dy dy)))"

fun nearestLoop ::
  "floatOps \<Rightarrow> jsnum \<Rightarrow> jsnum \<Rightarrow> noteRecord list \<Rightarrow> noteRecord option \<Rightarrow> jsnum
   \<Rightarrow> noteRecord option" where
  "nearestLoop ops x y [] nearest minDistance = nearest"
| "nearestLoop ops x y (pos # rest) nearest minDistance =
     (let distance = distanceTo ops x y pos
      in if js_less distance minDistance then nearestLoop ops x y rest (Some pos) distance
         else nearestLoop ops x y rest nearest minDistance)"

text \<open>\<^verbatim>\<open>findNearestNote(x, y, maxDistance = 100)\<close>; \<open>None\<close> is the omitted argument.\<close>

definition findNearestNote ::
  "floatOps \<Rightarrow> jsnum \<Rightarrow> jsnum \<Rightarrow> jsnum option \<Rightarrow> engine \<Rightarrow> noteRecord option" where
  "findNearestNote ops x y maxDistance s =
     nearestLoop ops x y (map snd (positions s)) None
       (case maxDistance of None \<Rightarrow> Fin 100 | Some m \<Rightarrow> m)"

subsection \<open>Loading the saved positions\<close>

text \<open>The chain of tests of \<^verbatim>\<open>loadPositions\<close> that fills \<^verbatim>\<open>updateData\<close>: a key is set
  when the saved value is defined and differs from the value read from the canvas
  object.\<close>

definition differs :: "'a option \<Rightarrow> 'a option \<Rightarrow> 'a option" where
  "differs saved current = (if saved \<noteq> None \<and> current \<noteq> saved then saved else None)"

definition updateDataFor :: "noteRecord \<Rightarrow> drawing \<Rightarrow> updateData" where
  "updateDataFor position drawing =
     \<lparr> u_x = differs (n_x position) (p_x drawing),
       u_y = differs (n_y position) (p_y drawing),
       u_rotation = differs (n_rotation position) (p_rotation drawing),
       u_z = differs (n_z position) (p_z drawing),
       u_shape_width = differs (n_width position)
         (case p_shape drawing of None \<Rightarrow> None | Some sh \<Rightarrow> sh_width sh),
       u_shape_height = differs (n_height position)
         (case p_shape drawing of None \<Rightarrow> None | Some sh \<Rightarrow> sh_height sh),
       u_scaleX = differs (n_scaleX position)
         (case p_transform drawing of None \<Rightarrow> None | Some t \<Rightarrow> tr_scaleX t),
       u_scaleY = differs (n_scaleY position)
         (case p_transform drawing of None \<Rightarrow> None | Some t \<Rightarrow> tr_scaleY t),
       u_type = differs (n_type position)
         (case p_flags drawing of None \<Rightarrow> None | Some f \<Rightarrow> f_type f),
       u_text = differs (n_text position)
         (case p_flags drawing of None \<Rightarrow> None | Some f \<Rightarrow> f_text f),
       u_image = differs (n_image position)
         (case p_flags drawing of None \<Rightarrow> None | Some f \<Rightarrow> f_image f),
       u_pinColor = differs (n_pinColor position)
         (case p_flags drawing of None \<Rightarrow> None | Some f \<Rightarrow> f_pinColor f),
       u_identityName = differs (n_identityName position)
         (case p_flags drawing of None \<Rightarrow> None | Some f \<Rightarrow> f_identityName f) \<rparr>"

text \<open>\<^verbatim>\<open>Object.keys(updateData).length > 0\<close>.\<close>

definition hasKeys :: "updateData \<Rightarrow> bool" where
  "hasKeys u \<longleftrightarrow> hasPositionChange u \<or> hasShapeChange u \<or> hasFlagChanges u"

text \<open>\<^verbatim>\<open>await drawing.document.update(updateData, options)\<close>. The update is the host's.
  What it makes of the drawing (of its document, and of the canvas object that
  \<^verbatim>\<open>loadPositions\<close> reads) is not decided by this module, so it is the parameter \<open>host\<close>:
  \<open>host i u d\<close> is drawing \<open>i\<close> once the update \<open>u\<close> of \<open>d\<close> has resolved. The module's side
  is modelled: the write is recorded, and the hook \<^verbatim>\<open>updateDrawing\<close> runs \<^verbatim>\<open>onNoteUpdate\<close>
  with the document, the update and the same options.\<close>

type_synonym host = "string \<Rightarrow> updateData \<Rightarrow> drawing \<Rightarrow> drawing"

definition documentUpdate ::
  "host \<Rightarrow> nat \<Rightarrow> string \<Rightarrow> updateData \<Rightarrow> options \<Rightarrow> engine \<Rightarrow> engine" where
  "documentUpdate host now i u opts s =
     (case drawings s i of
        None \<Rightarrow> s
      | Some d \<Rightarrow>
          (let d' = host i u d;
               s1 = s\<lparr>drawings := (drawings s)(i \<mapsto> d'), rendered := rendered s @ [Update i u]\<rparr>
           in onNoteUpdate now (p_document d') u opts (game_user_id s1) s1))"

text \<open>The \<^verbatim>\<open>for\<close> loop of \<^verbatim>\<open>loadPositions\<close> over \<^verbatim>\<open>Object.entries(this.positions)\<close>.\<close>

fun loadLoop :: "host \<Rightarrow> nat \<Rightarrow> (string \<times> noteRecord) list \<Rightarrow> engine \<Rightarrow> engine" where
  "loadLoop host now [] s = s"
| "loadLoop host now ((i, position) # rest) s =
     (case drawings s i of
        None \<Rightarrow> loadLoop host now rest s
      | Some drawing \<Rightarrow>
          (let u = updateDataFor position drawing
           in if hasKeys u
              then loadLoop host now rest (documentUpdate host now i u \<lparr>noSocket = True\<rparr> s)
              else loadLoop host now rest s))"


subsection \<open>Character limits and truncation\<close>

text \<open>The values a setting or a property read can give. The arithmetic of the character
  limits is done on \<^typ>\<open>jsnum\<close> without rounding: \<^verbatim>\<open>-0\<close> is not told apart from \<open>0\<close> and
  overflow to \<^verbatim>\<open>Infinity\<close> is not modelled there.\<close>

datatype jsval = JUndefined | JNumber jsnum | JObject "(string \<times> jsval) list"

fun truthy :: "jsval \<Rightarrow> bool" where
  "truthy JUndefined = False"
| "truthy (JNumber NaN) = False"
| "truthy (JNumber (Fin r)) = (r \<noteq> 0)"
| "truthy (JNumber n) = True"
| "truthy (JObject kvs) = True"

text \<open>\<^verbatim>\<open>v[k]\<close> for an own property. A number has no own properties; the reads below are
  all on truthy values, so the \<^verbatim>\<open>TypeError\<close> of reading from \<^verbatim>\<open>undefined\<close> cannot
  happen there. Names inherited from \<^verbatim>\<open>Object.prototype\<close> are not modelled.\<close>

fun js_get :: "jsval \<Rightarrow> string \<Rightarrow> jsval" where
  "js_get (JObject kvs) k = (case map_of kvs k of None \<Rightarrow> JUndefined | Some v \<Rightarrow> v)"
| "js_get v k = JUndefined"

fun toNumber :: "jsval \<Rightarrow> jsnum" where
  "toNumber (JNumber n) = n"
| "toNumber v = NaN"

definition inf_of_sign :: "real \<Rightarrow> jsnum" where
  "inf_of_sign r = (if r = 0 then NaN else if 0 < r then PosInf else NegInf)"

fun js_times :: "jsnum \<Rightarrow> jsnum \<Rightarrow> jsnum" where
  "js_times NaN b = NaN"
| "js_times a NaN = NaN"
| "js_times (Fin a) (Fin b) = Fin (a * b)"
| "js_times (Fin a) PosInf = inf_of_sign a"
| "js_times (Fin a) NegInf = inf_of_sign (- a)"
| "js_times PosInf (Fin b) = inf_of_sign b"
| "js_times NegInf (Fin b) = inf_of_sign (- b)"
| "js_times PosInf PosInf = PosInf"
| "js_times NegInf NegInf = PosInf"
| "js_times PosInf NegInf = NegInf"
| "js_times NegInf PosInf = NegInf"

fun js_divide :: "jsnum \<Rightarrow> jsnum \<Rightarrow> jsnum" where
  "js_divide NaN b = NaN"
| "js_divide a NaN = NaN"
| "js_divide (Fin a) (Fin b) = (if b = 0 then inf_of_sign a else Fin (a / b))"
| "js_divide (Fin a) b = Fin 0"
| "js_divide PosInf (Fin b) = (if 0 \<le> b then PosInf else NegInf)"
| "js_divide NegInf (Fin b) = (if 0 \<le> b then NegInf else PosInf)"
| "js_divide a b = NaN"

fun math_round :: "jsnum \<Rightarrow> jsnum" where
  "math_round (Fin r) = Fin (of_int \<lfloor>r + 1 / 2\<rfloor>)"
| "math_round n = n"

definition BASE_FONT_SIZE :: jsnum where
  "BASE_FONT_SIZE = Fin 15"

definition defaultLimits :: jsval where
  "defaultLimits =
     JObject [(''sticky'', JNumber (Fin 60)), (''photo'', JNumber (Fin 15)),
              (''index'', JNumber (Fin 200))]"

text \<open>\<open>setting\<close> is what \<^verbatim>\<open>game.settings.get(MODULE_ID, "baseCharacterLimits")\<close> returns.\<close>

definition getBaseCharacterLimits :: "jsval \<Rightarrow> jsval" where
  "getBaseCharacterLimits setting = (if truthy setting then setting else defaultLimits)"

definition getDynamicCharacterLimits :: "jsval \<Rightarrow> string \<Rightarrow> jsnum \<Rightarrow> jsval" where
  "getDynamicCharacterLimits setting noteType currentFontSize =
     (let baseLimits = getBaseCharacterLimits setting;
          scaleFactor = js_divide BASE_FONT_SIZE currentFontSize;
          limits = (let v = js_get baseLimits noteType in if truthy v then v else defaultLimits)
      in JObject
           [(''sticky'', JNumber (math_round (js_times (toNumber (js_get limits ''sticky'')) scaleFactor))),
            (''photo'', JNumber (math_round (js_times (toNumber (js_get limits ''photo'')) scaleFactor))),
            (''index'', JNumber (math_round (js_times (toNumber (js_get limits ''index'')) scaleFactor)))])"

text \<open>The first two lines of \<^verbatim>\<open>_truncateText(text, font, noteType, currentFontSize)\<close>: the
  limits are asked for \<open>font\<close>, and \<^verbatim>\<open>limits[noteType] || 100\<close> picks the limit.\<close>

definition charLimit :: "jsval \<Rightarrow> string \<Rightarrow> string \<Rightarrow> jsnum \<Rightarrow> jsnum" where
  "charLimit setting font noteType currentFontSize =
     (let limits = getDynamicCharacterLimits setting font currentFontSize;
          v = js_get limits noteType
      in if truthy v then toNumber v else Fin 100)"

text \<open>\<^verbatim>\<open>text.length <= charLimit\<close>.\<close>

fun length_le :: "string \<Rightarrow> jsnum \<Rightarrow> bool" where
  "length_le t (Fin r) = (real (length t) \<le> r)"
| "length_le t PosInf = True"
| "length_le t n = False"

text \<open>\<^verbatim>\<open>text.slice(0, end)\<close>: the end is made an integer towards zero, a negative end
  counts from the end of the text, and the result is cut to the text.\<close>

fun slice0 :: "string \<Rightarrow> jsnum \<Rightarrow> string" where
  "slice0 t (Fin r) =
     (let k = (if 0 \<le> r then \<lfloor>r\<rfloor> else \<lceil>r\<rceil>)
      in if k < 0 then take (nat (int (length t) + k)) t else take (nat k) t)"
| "slice0 t PosInf = t"
| "slice0 t n = []"

text \<open>\<^verbatim>\<open>String.prototype.trim\<close>: white space and line terminators below 256.\<close>

definition is_js_space :: "char \<Rightarrow> bool" where
  "is_js_space c \<longleftrightarrow> (of_char c :: nat) \<in> {9, 10, 11, 12, 13, 32, 160}"

definition trimStart :: "string \<Rightarrow> string" where
  "trimStart t = dropWhile is_js_space t"

definition trimEnd :: "string \<Rightarrow> string" where
  "trimEnd t = rev (dropWhile is_js_space (rev t))"

definition trim :: "string \<Rightarrow> string" where
  "trim t = trimEnd (trimStart t)"

definition truncateText :: "jsval \<Rightarrow> string \<Rightarrow> string \<Rightarrow> string \<Rightarrow> jsnum \<Rightarrow> string" where
  "truncateText setting text font noteType currentFontSize =
     (let limit = charLimit setting font noteType currentFontSize
      in if length_le text limit then text else trim (slice0 text limit) @ ''...'')"

subsection \<open>The behaviour the specification describes\<close>


text \<open>The truncation as the specification words it: the first \<open>limit\<close> characters with
  trailing white space removed, then the ellipsis.\<close>

definition spec_truncate :: "nat \<Rightarrow> string \<Rightarrow> string" where
  "spec_truncate limit text =
     (if length text \<le> limit then text else trimEnd (take limit text) @ ''...'')"

subsection \<open>Example inputs\<close>

definition example_note :: "string \<Rightarrow> real \<Rightarrow> real \<Rightarrow> string \<Rightarrow> noteRecord" where
  "example_note i px py t =
     \<lparr> n_id = Some i, n_x = Some px, n_y = Some py, n_rotation = Some 0, n_z = Some 0,
       n_width = Some 200, n_height = Some 200, n_scaleX = Some 1, n_scaleY = Some 1,
       n_type = Some ''sticky'', n_text = Some t, n_image = Some '''', n_pinColor = Some '''',
       n_identityName = Some '''', n_updated = Some 0 \<rparr>"

definition example_document :: "string \<Rightarrow> real \<Rightarrow> real \<Rightarrow> drawingDocument" where
  "example_document i px py =
     \<lparr> d_id = i, d_x = Some px, d_y = Some py, d_rotation = None, d_z = None,
       d_shape = Some \<lparr>sh_width = Some 200, sh_height = Some 200\<rparr>, d_transform = None,
       d_flags = Some \<lparr>f_type = Some ''sticky'', f_text = Some ''Clue'', f_image = None,
                       f_pinColor = None, f_identityName = None\<rparr> \<rparr>"

definition example_engine :: "positions \<Rightarrow> engine" where
  "example_engine ps =
     \<lparr> positions = ps, scene = Some \<lparr>notePositions = Some ps, rejects = False\<rparr>,
       drawings = Map.empty, socket = True, game_user_id = ''userA'',
       sent = [], emitted = [], rendered = [], logged = [] \<rparr>"

definition example_change :: updateData where
  "example_change =
     \<lparr> u_x = Some 3, u_y = None, u_rotation = None, u_z = None, u_shape_width = None,
       u_shape_height = None, u_scaleX = None, u_scaleY = None, u_type = None, u_text = None,
       u_image = None, u_pinColor = None, u_identityName = None \<rparr>"

definition example_setting :: jsval where
  "example_setting =
     JObject [(''sticky'', JNumber (Fin 80)), (''photo'', JNumber (Fin 15)),
              (''index'', JNumber (Fin 200))]"


text \<open>The four operations without rounding, for the examples: on the small integers used
  there the double operations give the same results.\<close>

definition lift2 :: "(real \<Rightarrow> real \<Rightarrow> real) \<Rightarrow> jsnum \<Rightarrow> jsnum \<Rightarrow> jsnum" where
  "lift2 f a b = (case (a, b) of (Fin u, Fin v) \<Rightarrow> Fin (f u v) | _ \<Rightarrow> NaN)"

definition example_ops :: floatOps where
  "example_ops =
     \<lparr> f_minus = lift2 (\<lambda>u v. u - v), f_times = lift2 (\<lambda>u v. u * v),
       f_plus = lift2 (\<lambda>u v. u + v),
       f_sqrt = (\<lambda>a. case a of Fin u \<Rightarrow> if u < 0 then NaN else Fin (sqrt u) | _ \<Rightarrow> NaN) \<rparr>"






section \<open>Properties of the position manager\<close>

subsection \<open>What the persistence step touches\<close>

lemma positions_savePositions [simp]: "positions (savePositions s) = positions s"
  by (simp add: savePositions_def setFlag_def split: option.splits)

lemma scene_savePositions:
  "scene (savePositions s) =
     (case scene s of None \<Rightarrow> None
      | Some sc \<Rightarrow> if rejects sc then Some sc else Some (sc\<lparr>notePositions := Some (positions s)\<rparr>))"
  by (simp add: savePositions_def setFlag_def split: option.splits)

lemma logged_savePositions:
  "logged (savePositions s) =
     (case scene s of None \<Rightarrow> logged s
      | Some sc \<Rightarrow> if rejects sc
                   then logged s @ [''investigation-board | Error saving note positions:'']
                   else logged s)"
  by (simp add: savePositions_def setFlag_def split: option.splits)

lemma positions_updatePosition:
  "positions (updatePosition now d u s) = AList.update (d_id d) (positionOf now d) (positions s)"
  by (simp add: updatePosition_def emit_def Let_def)

lemma scene_updatePosition:
  "scene (updatePosition now d u s) =
     scene (savePositions (s\<lparr>positions := AList.update (d_id d) (positionOf now d) (positions s)\<rparr>))"
  by (simp add: updatePosition_def emit_def Let_def)

lemma sent_updatePosition:
  "sent (updatePosition now d u s) =
     (if socket s \<and> game_user_id s = u
      then sent s @ [\<lparr>m_id = Some (d_id d), m_position = Some (positionOf now d)\<rparr>]
      else sent s)"
  by (simp add: updatePosition_def savePositions_def setFlag_def emit_def Let_def
      split: option.splits)

lemma logged_updatePosition:
  "logged (updatePosition now d u s) =
     logged (savePositions (s\<lparr>positions := AList.update (d_id d) (positionOf now d) (positions s)\<rparr>))"
  by (simp add: updatePosition_def emit_def Let_def)

lemma positions_onNoteDelete:
  "positions (onNoteDelete d opts u s) =
     (if d_flags d \<noteq> None \<and> map_of (positions s) (d_id d) \<noteq> None
      then AList.delete (d_id d) (positions s) else positions s)"
  by (simp add: onNoteDelete_def emit_def Let_def)

lemma logged_onNoteDelete:
  "d_flags d \<noteq> None \<Longrightarrow> map_of (positions s) (d_id d) \<noteq> None \<Longrightarrow>
   logged (onNoteDelete d opts u s) =
     logged (savePositions (s\<lparr>positions := AList.delete (d_id d) (positions s)\<rparr>))"
  by (simp add: onNoteDelete_def emit_def Let_def)

lemma null_message_ignored:
  "onExternalPositionUpdate \<lparr>m_id = i, m_position = None\<rparr> s = s"
  by (simp add: onExternalPositionUpdate_def split: option.splits)

subsection \<open>Remote messages\<close>

text \<open>
  C1. The claim: a message whose \<^verbatim>\<open>position\<close> is \<^verbatim>\<open>null\<close> removes the entry for its id
  from \<^verbatim>\<open>this.positions\<close> at the receiver. The code evaluated at such a message: the
  guard \<^verbatim>\<open>data.id && data.position\<close> is false, nothing is done, and the record of note
  \<^verbatim>\<open>n1\<close> is still in the cache afterwards.
\<close>

theorem remote_deletion_not_applied:
  "map_of (positions (onExternalPositionUpdate \<lparr>m_id = Some ''n1'', m_position = None\<rparr>
             (example_engine [(''n1'', example_note ''n1'' 0 0 ''Clue'')]))) ''n1''
   = Some (example_note ''n1'' 0 0 ''Clue'')"
  by (simp add: onExternalPositionUpdate_def example_engine_def)

text \<open>
  C8. Applying the same message twice in a row with \<^verbatim>\<open>onExternalPositionUpdate\<close> leaves
  \<^verbatim>\<open>this.positions\<close> as applying it once does, for every message (also one without id
  or with a \<^verbatim>\<open>null\<close> position) and every state.
\<close>

theorem remote_application_idempotent:
  "positions (onExternalPositionUpdate m (onExternalPositionUpdate m s))
   = positions (onExternalPositionUpdate m s)"
  by (simp add: onExternalPositionUpdate_def emit_def Let_def split: option.splits)

theorem remote_application_idempotent_witness:
  "positions (onExternalPositionUpdate \<lparr>m_id = Some ''n1'', m_position = Some (example_note ''n1'' 5 6 ''Clue'')\<rparr>
     (onExternalPositionUpdate \<lparr>m_id = Some ''n1'', m_position = Some (example_note ''n1'' 5 6 ''Clue'')\<rparr>
        (example_engine [(''n0'', example_note ''n0'' 0 0 ''Old'')])))
   = [(''n0'', example_note ''n0'' 0 0 ''Old''), (''n1'', example_note ''n1'' 5 6 ''Clue'')]"
  using remote_application_idempotent
    [of "\<lparr>m_id = Some ''n1'', m_position = Some (example_note ''n1'' 5 6 ''Clue'')\<rparr>"
        "example_engine [(''n0'', example_note ''n0'' 0 0 ''Old'')]"]
  by (simp add: onExternalPositionUpdate_def emit_def example_engine_def)

subsection \<open>Local changes\<close>

text \<open>
  C2, as the claim states it, fails: \<^verbatim>\<open>updatePosition\<close> called with the id of another user
  still writes the cache and the scene flag. Here the own user is \<^verbatim>\<open>userA\<close>, the event
  comes from \<^verbatim>\<open>userB\<close>, and both \<^verbatim>\<open>this.positions\<close> and the stored flag change.
\<close>

theorem updatePosition_other_user_counterexample:
  "game_user_id (example_engine []) \<noteq> ''userB''
   \<and> positions (updatePosition 7 (example_document ''n1'' 3 4) ''userB'' (example_engine []))
       \<noteq> positions (example_engine [])
   \<and> scene (updatePosition 7 (example_document ''n1'' 3 4) ''userB'' (example_engine []))
       \<noteq> scene (example_engine [])"
  by (simp add: positions_updatePosition scene_updatePosition scene_savePositions example_engine_def)

text \<open>
  C2, amended. For every document and every \<^verbatim>\<open>userId\<close>, \<^verbatim>\<open>updatePosition\<close> stores the
  record in \<^verbatim>\<open>this.positions\<close> and persists: with a scene that accepts the write, the
  stored flag becomes the new cache (a scene that rejects keeps its flag, no scene stays
  none). The user id only guards the broadcast: the message is sent exactly when a socket
  exists and \<^verbatim>\<open>userId\<close> is \<^verbatim>\<open>game.user.id\<close>.
\<close>

theorem updatePosition_guards_only_broadcast:
  "positions (updatePosition now d u s) = AList.update (d_id d) (positionOf now d) (positions s)
   \<and> scene (updatePosition now d u s) =
       (case scene s of
          None \<Rightarrow> None
        | Some sc \<Rightarrow>
            if rejects sc then Some sc
            else Some (sc\<lparr>notePositions :=
                         Some (AList.update (d_id d) (positionOf now d) (positions s))\<rparr>))
   \<and> sent (updatePosition now d u s) =
       (if socket s \<and> game_user_id s = u
        then sent s @ [\<lparr>m_id = Some (d_id d), m_position = Some (positionOf now d)\<rparr>]
        else sent s)"
  by (simp add: positions_updatePosition scene_updatePosition scene_savePositions
      sent_updatePosition split: option.splits)

theorem updatePosition_guards_only_broadcast_witness:
  "positions (updatePosition 7 (example_document ''n1'' 3 4) ''userB'' (example_engine []))
     = [(''n1'', positionOf 7 (example_document ''n1'' 3 4))]
   \<and> scene (updatePosition 7 (example_document ''n1'' 3 4) ''userB'' (example_engine []))
     = Some \<lparr>notePositions = Some [(''n1'', positionOf 7 (example_document ''n1'' 3 4))],
              rejects = False\<rparr>
   \<and> sent (updatePosition 7 (example_document ''n1'' 3 4) ''userB'' (example_engine [])) = []
   \<and> sent (updatePosition 7 (example_document ''n1'' 3 4) ''userA'' (example_engine []))
     = [\<lparr>m_id = Some ''n1'', m_position = Some (positionOf 7 (example_document ''n1'' 3 4))\<rparr>]"
proof -
  have start: "positions (example_engine []) = []" "sent (example_engine []) = []"
    "scene (example_engine []) = Some \<lparr>notePositions = Some [], rejects = False\<rparr>"
    "socket (example_engine [])" "game_user_id (example_engine []) = ''userA''"
    by (simp_all add: example_engine_def)
  have id: "d_id (example_document ''n1'' 3 4) = ''n1''"
    by (simp add: example_document_def)
  show ?thesis
    using updatePosition_guards_only_broadcast
        [of 7 "example_document ''n1'' 3 4" "''userB''" "example_engine []"]
      updatePosition_guards_only_broadcast
        [of 7 "example_document ''n1'' 3 4" "''userA''" "example_engine []"]
    by (simp add: start id)
qed

text \<open>
  C3, as the claim states it, fails for the kinds create and delete: \<^verbatim>\<open>onNoteCreate\<close>
  does not read \<^verbatim>\<open>options.noSocket\<close>, and a create event that carries the flag still
  changes the state.
\<close>

theorem suppressed_create_counterexample:
  "noSocket \<lparr>noSocket = True\<rparr>
   \<and> onNoteCreate 7 (example_document ''n1'' 3 4) \<lparr>noSocket = True\<rparr> ''userA'' (example_engine [])
       \<noteq> example_engine []"
proof -
  have "positions (onNoteCreate 7 (example_document ''n1'' 3 4) \<lparr>noSocket = True\<rparr> ''userA''
          (example_engine [])) \<noteq> positions (example_engine [])"
    by (simp add: onNoteCreate_def positions_updatePosition example_engine_def example_document_def)
  then show ?thesis by auto
qed

text \<open>
  C3, amended. For every update event, if \<^verbatim>\<open>options.noSocket\<close> is set, \<^verbatim>\<open>onNoteUpdate\<close>
  takes no action at all: the whole state (cache, scene flag, messages sent) is unchanged.
\<close>

theorem suppressed_update_ignored:
  "noSocket opts \<Longrightarrow> onNoteUpdate now d u opts userId s = s"
  by (simp add: onNoteUpdate_def)

theorem suppressed_update_ignored_witness:
  "noSocket \<lparr>noSocket = True\<rparr>
   \<and> onNoteUpdate 7 (example_document ''n1'' 3 4) example_change \<lparr>noSocket = True\<rparr> ''userA''
       (example_engine [])
     = example_engine []
   \<and> onNoteUpdate 7 (example_document ''n1'' 3 4) example_change \<lparr>noSocket = False\<rparr> ''userA''
       (example_engine [])
     \<noteq> example_engine []"
proof -
  have "positions (onNoteUpdate 7 (example_document ''n1'' 3 4) example_change \<lparr>noSocket = False\<rparr>
          ''userA'' (example_engine [])) \<noteq> positions (example_engine [])"
    by (simp add: onNoteUpdate_def hasPositionChange_def example_change_def
        positions_updatePosition example_engine_def example_document_def)
  then have "onNoteUpdate 7 (example_document ''n1'' 3 4) example_change \<lparr>noSocket = False\<rparr>
          ''userA'' (example_engine []) \<noteq> example_engine []"
    by auto
  then show ?thesis
    using suppressed_update_ignored [of "\<lparr>noSocket = True\<rparr>" 7 "example_document ''n1'' 3 4"
        example_change "''userA''" "example_engine []"]
    by simp
qed

subsection \<open>Persistence failures\<close>

text \<open>
  C9. When \<^verbatim>\<open>setFlag\<close> rejects, \<^verbatim>\<open>savePositions\<close> catches the rejection and logs it, and
  the change made to \<^verbatim>\<open>this.positions\<close> before it stays: after \<^verbatim>\<open>updatePosition\<close> (the
  create and update path) and after \<^verbatim>\<open>onNoteDelete\<close> the cache is the same as after a
  persist that succeeded, one error is logged, and the stored flag is untouched.
\<close>

theorem failed_persist_keeps_memory:
  fixes s :: engine and sc :: scene
  defines "bad \<equiv> s\<lparr>scene := Some (sc\<lparr>rejects := True\<rparr>)\<rparr>"
      and "good \<equiv> s\<lparr>scene := Some (sc\<lparr>rejects := False\<rparr>)\<rparr>"
      and "err \<equiv> ''investigation-board | Error saving note positions:''"
  shows "positions (savePositions bad) = positions s
       \<and> logged (savePositions bad) = logged s @ [err]
       \<and> positions (updatePosition now d u bad) = positions (updatePosition now d u good)
       \<and> positions (updatePosition now d u bad) = AList.update (d_id d) (positionOf now d) (positions s)
       \<and> logged (updatePosition now d u bad) = logged s @ [err]
       \<and> scene (updatePosition now d u bad) = scene bad
       \<and> positions (onNoteDelete d opts u bad) = positions (onNoteDelete d opts u good)
       \<and> (d_flags d \<noteq> None \<and> map_of (positions s) (d_id d) \<noteq> None \<longrightarrow>
            positions (onNoteDelete d opts u bad) = AList.delete (d_id d) (positions s)
            \<and> logged (onNoteDelete d opts u bad) = logged s @ [err])"
  unfolding bad_def good_def err_def
  by (simp add: positions_updatePosition positions_onNoteDelete logged_savePositions
      logged_updatePosition logged_onNoteDelete scene_updatePosition scene_savePositions)

theorem failed_persist_keeps_memory_witness:
  "d_flags (example_document ''n1'' 3 4) \<noteq> None
   \<and> map_of (positions (example_engine [(''n1'', example_note ''n1'' 0 0 ''Clue'')])) ''n1'' \<noteq> None
   \<and> positions (onNoteDelete (example_document ''n1'' 3 4) \<lparr>noSocket = False\<rparr> ''userA''
        ((example_engine [(''n1'', example_note ''n1'' 0 0 ''Clue'')])
           \<lparr>scene := Some (\<lparr>notePositions = None, rejects = False\<rparr>\<lparr>rejects := True\<rparr>)\<rparr>)) = []
   \<and> logged (onNoteDelete (example_document ''n1'' 3 4) \<lparr>noSocket = False\<rparr> ''userA''
        ((example_engine [(''n1'', example_note ''n1'' 0 0 ''Clue'')])
           \<lparr>scene := Some (\<lparr>notePositions = None, rejects = False\<rparr>\<lparr>rejects := True\<rparr>)\<rparr>))
       = [''investigation-board | Error saving note positions:'']"
proof -
  let ?d = "example_document ''n1'' 3 4"
  let ?s = "example_engine [(''n1'', example_note ''n1'' 0 0 ''Clue'')]"
  let ?bad = "?s\<lparr>scene := Some (\<lparr>notePositions = None, rejects = False\<rparr>\<lparr>rejects := True\<rparr>)\<rparr>"
  have flags: "d_flags ?d \<noteq> None"
    by (simp add: example_document_def)
  have present: "map_of (positions ?s) (d_id ?d) \<noteq> None"
    by (simp add: example_engine_def example_document_def)
  have present': "map_of (positions ?s) ''n1'' \<noteq> None"
    by (simp add: example_engine_def)
  have before: "AList.delete (d_id ?d) (positions ?s) = []" "logged ?s = []"
    by (simp_all add: example_engine_def example_document_def)
  have "positions (onNoteDelete ?d \<lparr>noSocket = False\<rparr> ''userA'' ?bad)
          = AList.delete (d_id ?d) (positions ?s)
        \<and> logged (onNoteDelete ?d \<lparr>noSocket = False\<rparr> ''userA'' ?bad)
          = logged ?s @ [''investigation-board | Error saving note positions:'']"
    using failed_persist_keeps_memory
      [where d = ?d and s = ?s and sc = "\<lparr>notePositions = None, rejects = False\<rparr>"
         and now = 7 and u = "''userA''" and opts = "\<lparr>noSocket = False\<rparr>"]
      flags present
    by blast
  then have "positions (onNoteDelete ?d \<lparr>noSocket = False\<rparr> ''userA'' ?bad) = []
        \<and> logged (onNoteDelete ?d \<lparr>noSocket = False\<rparr> ''userA'' ?bad)
          = [''investigation-board | Error saving note positions:'']"
    by (simp only: before append_Nil)
  with flags present' show ?thesis
    by blast
qed

subsection \<open>Text search\<close>

lemma str_includes_iff: "str_includes t q \<longleftrightarrow> (\<exists>a b. t = a @ q @ b)"
proof (induction t)
  case Nil
  then show ?case by auto
next
  case (Cons c cs)
  have "take (length q) (c # cs) = q \<longleftrightarrow> (\<exists>b. c # cs = q @ b)"
    by (metis append_eq_conv_conj)
  moreover have "(\<exists>a b. c # cs = a @ q @ b) \<longleftrightarrow> (\<exists>b. c # cs = q @ b) \<or> (\<exists>a b. cs = a @ q @ b)"
  proof
    assume "\<exists>a b. c # cs = a @ q @ b"
    then obtain a b where ab: "c # cs = a @ q @ b" by blast
    show "(\<exists>b. c # cs = q @ b) \<or> (\<exists>a b. cs = a @ q @ b)"
    proof (cases a)
      case Nil
      with ab show ?thesis by auto
    next
      case (Cons x a')
      with ab have "cs = a' @ q @ b" by simp
      then show ?thesis by blast
    qed
  next
    assume "(\<exists>b. c # cs = q @ b) \<or> (\<exists>a b. cs = a @ q @ b)"
    then show "\<exists>a b. c # cs = a @ q @ b"
    proof
      assume "\<exists>b. c # cs = q @ b"
      then obtain b where "c # cs = [] @ q @ b" by auto
      then show ?thesis by blast
    next
      assume "\<exists>a b. cs = a @ q @ b"
      then obtain a b where "c # cs = (c # a) @ q @ b" by auto
      then show ?thesis by blast
    qed
  qed
  ultimately show ?case
    using Cons.IH by simp
qed

lemma str_includes_empty_query: "str_includes t []"
  by (cases t) simp_all

text \<open>
  C10. \<^verbatim>\<open>searchNotesByText\<close> returns exactly the records of the cache whose text is
  not empty and, in lower case, contains the query in lower case. No record with an
  empty text is ever returned, for any query, although the empty text does include the
  empty query: the test \<^verbatim>\<open>pos.text &&\<close> excludes it.
\<close>

theorem search_skips_empty_text:
  "set (searchNotesByText q s) =
     {pos \<in> snd ` set (positions s).
        \<exists>t. n_text pos = Some t \<and> t \<noteq> [] \<and> (\<exists>a b. toLowerCase t = a @ toLowerCase q @ b)}
   \<and> (\<forall>pos \<in> set (searchNotesByText q s). n_text pos \<noteq> Some [])
   \<and> str_includes (toLowerCase []) (toLowerCase [])"
proof (intro conjI)
  show "set (searchNotesByText q s) =
     {pos \<in> snd ` set (positions s).
        \<exists>t. n_text pos = Some t \<and> t \<noteq> [] \<and> (\<exists>a b. toLowerCase t = a @ toLowerCase q @ b)}"
    unfolding searchNotesByText_def str_includes_iff
    by (auto split: option.splits) blast
  show "\<forall>pos \<in> set (searchNotesByText q s). n_text pos \<noteq> Some []"
    by (auto simp: searchNotesByText_def)
  show "str_includes (toLowerCase []) (toLowerCase [])"
    by (simp add: toLowerCase_def)
qed

theorem search_skips_empty_text_witness:
  "searchNotesByText '''' (example_engine [(''n1'', example_note ''n1'' 0 0 ''''),
                                            (''n2'', example_note ''n2'' 1 1 ''Clue'')])
     = [example_note ''n2'' 1 1 ''Clue'']
   \<and> n_text (example_note ''n2'' 1 1 ''Clue'') \<noteq> Some []"
proof -
  let ?s = "example_engine [(''n1'', example_note ''n1'' 0 0 ''''),
                            (''n2'', example_note ''n2'' 1 1 ''Clue'')]"
  have run: "searchNotesByText '''' ?s = [example_note ''n2'' 1 1 ''Clue'']"
    by code_simp
  from search_skips_empty_text [of "''''" ?s]
  have "\<forall>pos \<in> set (searchNotesByText '''' ?s). n_text pos \<noteq> Some []"
    by blast
  with run show ?thesis
    by simp
qed

subsection \<open>Nearest note\<close>

lemma js_less_irrefl: "\<not> js_less a a"
  by (cases a) simp_all

lemma js_less_trans: "js_less a b \<Longrightarrow> js_less b c \<Longrightarrow> js_less a c"
  by (cases a; cases b; cases c) simp_all

lemma js_less_asym: "js_less a b \<Longrightarrow> \<not> js_less b a"
  by (cases a; cases b) simp_all

lemma nearestLoop_spec:
  "nearestLoop ops x y ps acc m = res \<Longrightarrow>
   (res = acc \<and> (\<forall>p\<in>set ps. \<not> js_less (distanceTo ops x y p) m))
   \<or> (\<exists>pre r post. ps = pre @ r # post \<and> res = Some r \<and> js_less (distanceTo ops x y r) m
        \<and> (\<forall>p\<in>set pre. distanceTo ops x y p \<noteq> distanceTo ops x y r
                          \<and> \<not> js_less (distanceTo ops x y p) (distanceTo ops x y r))
        \<and> (\<forall>p\<in>set post. \<not> js_less (distanceTo ops x y p) (distanceTo ops x y r)))"
proof (induction ps arbitrary: acc m)
  case Nil
  then show ?case by simp
next
  case (Cons p rest)
  let ?d = "distanceTo ops x y"
  show ?case
  proof (cases "js_less (?d p) m")
    case True
    with Cons.prems have run: "nearestLoop ops x y rest (Some p) (?d p) = res"
      by (simp add: Let_def)
    from Cons.IH [OF run] show ?thesis
    proof
      assume a: "res = Some p \<and> (\<forall>q\<in>set rest. \<not> js_less (?d q) (?d p))"
      have "p # rest = [] @ p # rest" by simp
      moreover have "\<forall>q\<in>set []. ?d q \<noteq> ?d p \<and> \<not> js_less (?d q) (?d p)" by simp
      ultimately show ?thesis using a True by blast
    next
      assume "\<exists>pre r post. rest = pre @ r # post \<and> res = Some r \<and> js_less (?d r) (?d p)
          \<and> (\<forall>q\<in>set pre. ?d q \<noteq> ?d r \<and> \<not> js_less (?d q) (?d r))
          \<and> (\<forall>q\<in>set post. \<not> js_less (?d q) (?d r))"
      then obtain pre r post where h: "rest = pre @ r # post" "res = Some r"
        "js_less (?d r) (?d p)"
        "\<forall>q\<in>set pre. ?d q \<noteq> ?d r \<and> \<not> js_less (?d q) (?d r)"
        "\<forall>q\<in>set post. \<not> js_less (?d q) (?d r)"
        by blast
      from h(1) have split: "p # rest = (p # pre) @ r # post" by simp
      from h(3) have "?d p \<noteq> ?d r" "\<not> js_less (?d p) (?d r)"
        using js_less_irrefl js_less_asym by auto
      with h(4) have pre: "\<forall>q\<in>set (p # pre). ?d q \<noteq> ?d r \<and> \<not> js_less (?d q) (?d r)"
        by simp
      from h(3) True have "js_less (?d r) m" by (rule js_less_trans)
      with split pre h(2,5) show ?thesis by blast
    qed
  next
    case False
    with Cons.prems have run: "nearestLoop ops x y rest acc m = res"
      by (simp add: Let_def)
    from Cons.IH [OF run] show ?thesis
    proof
      assume "res = acc \<and> (\<forall>q\<in>set rest. \<not> js_less (?d q) m)"
      with False show ?thesis by auto
    next
      assume "\<exists>pre r post. rest = pre @ r # post \<and> res = Some r \<and> js_less (?d r) m
          \<and> (\<forall>q\<in>set pre. ?d q \<noteq> ?d r \<and> \<not> js_less (?d q) (?d r))
          \<and> (\<forall>q\<in>set post. \<not> js_less (?d q) (?d r))"
      then obtain pre r post where h: "rest = pre @ r # post" "res = Some r"
        "js_less (?d r) m"
        "\<forall>q\<in>set pre. ?d q \<noteq> ?d r \<and> \<not> js_less (?d q) (?d r)"
        "\<forall>q\<in>set post. \<not> js_less (?d q) (?d r)"
        by blast
      from h(1) have split: "p # rest = (p # pre) @ r # post" by simp
      from h(3) False have "?d p \<noteq> ?d r" by auto
      moreover from h(3) False have "\<not> js_less (?d p) (?d r)"
        using js_less_trans by blast
      ultimately have pre: "\<forall>q\<in>set (p # pre). ?d q \<noteq> ?d r \<and> \<not> js_less (?d q) (?d r)"
        using h(4) by simp
      with split h(2,3,5) show ?thesis by blast
    qed
  qed
qed

text \<open>
  C6, amended. The distance of a record is the double \<^verbatim>\<open>Math.sqrt(dx*dx + dy*dy)\<close> as the
  code computes it, whatever the rounding of the four operations. \<^verbatim>\<open>findNearestNote\<close>
  returns none exactly when no record has a computed distance strictly below
  \<^verbatim>\<open>maxDistance\<close>. Otherwise it returns a record whose computed distance is strictly below
  \<^verbatim>\<open>maxDistance\<close> and which no record undercuts; among several records at that distance it
  is the first one in the order of \<^verbatim>\<open>Object.values(this.positions)\<close>: every record before
  the result has another distance and not a smaller one, no record after it has a smaller
  one. An omitted \<^verbatim>\<open>maxDistance\<close> is 100.
\<close>

theorem nearest_is_first_minimum:
  fixes s :: engine
  defines "vals \<equiv> map snd (positions s)"
  shows "(findNearestNote ops x y (Some maxDistance) s = None \<longleftrightarrow>
           (\<forall>p\<in>set vals. \<not> js_less (distanceTo ops x y p) maxDistance))
       \<and> (\<forall>r. findNearestNote ops x y (Some maxDistance) s = Some r \<longrightarrow>
            (\<exists>pre post. vals = pre @ r # post \<and> js_less (distanceTo ops x y r) maxDistance
               \<and> (\<forall>p\<in>set pre. distanceTo ops x y p \<noteq> distanceTo ops x y r
                                 \<and> \<not> js_less (distanceTo ops x y p) (distanceTo ops x y r))
               \<and> (\<forall>p\<in>set post. \<not> js_less (distanceTo ops x y p) (distanceTo ops x y r))))
       \<and> findNearestNote ops x y None s = findNearestNote ops x y (Some (Fin 100)) s"
proof (intro conjI allI impI)
  let ?res = "findNearestNote ops x y (Some maxDistance) s"
  let ?d = "distanceTo ops x y"
  have run: "nearestLoop ops x y vals None maxDistance = ?res"
    by (simp add: findNearestNote_def vals_def)
  note spec = nearestLoop_spec [OF run]
  show "?res = None \<longleftrightarrow> (\<forall>p\<in>set vals. \<not> js_less (?d p) maxDistance)"
  proof
    assume "?res = None"
    with spec show "\<forall>p\<in>set vals. \<not> js_less (?d p) maxDistance"
      by auto
  next
    assume far: "\<forall>p\<in>set vals. \<not> js_less (?d p) maxDistance"
    from spec show "?res = None"
    proof
      assume "?res = None \<and> (\<forall>p\<in>set vals. \<not> js_less (?d p) maxDistance)"
      then show ?thesis by simp
    next
      assume "\<exists>pre r post. vals = pre @ r # post \<and> ?res = Some r \<and> js_less (?d r) maxDistance
          \<and> (\<forall>q\<in>set pre. ?d q \<noteq> ?d r \<and> \<not> js_less (?d q) (?d r))
          \<and> (\<forall>q\<in>set post. \<not> js_less (?d q) (?d r))"
      then obtain pre r post where "vals = pre @ r # post" "js_less (?d r) maxDistance"
        by blast
      with far show ?thesis by fastforce
    qed
  qed
  show "findNearestNote ops x y None s = findNearestNote ops x y (Some (Fin 100)) s"
    by (simp add: findNearestNote_def)
  fix r
  assume "?res = Some r"
  with spec show "\<exists>pre post. vals = pre @ r # post \<and> js_less (?d r) maxDistance
               \<and> (\<forall>p\<in>set pre. ?d p \<noteq> ?d r \<and> \<not> js_less (?d p) (?d r))
               \<and> (\<forall>p\<in>set post. \<not> js_less (?d p) (?d r))"
    by auto
qed

lemma sqrt_less_iff_square:
  assumes "0 \<le> m"
  shows "sqrt a < m \<longleftrightarrow> a < m * m"
proof -
  from assms have "sqrt (m * m) = m" by simp
  then have "sqrt a < m \<longleftrightarrow> sqrt a < sqrt (m * m)" by simp
  also have "\<dots> \<longleftrightarrow> a < m * m" by (rule real_sqrt_less_iff)
  finally show ?thesis .
qed

lemma distanceTo_example:
  "distanceTo example_ops (Fin x) (Fin y) (example_note i px py t)
   = Fin (sqrt ((px - x) * (px - x) + (py - y) * (py - y)))"
  using sum_squares_ge_zero [of "px - x" "py - y"]
  by (simp add: distanceTo_def example_note_def example_ops_def lift2_def num_of_def Let_def
      not_less)

lemma id_a_before_b: "(''a''::string) < ''b''"
  by simp

lemma distance_a: "distanceTo example_ops (Fin 1) (Fin 0) (example_note ''a'' 2 0 ''A'') = Fin 1"
  by (simp add: distanceTo_example)

lemma distance_b: "distanceTo example_ops (Fin 1) (Fin 0) (example_note ''b'' 0 0 ''B'') = Fin 1"
  by (simp add: distanceTo_example)

text \<open>
  C6, as the claim states it, fails in its last part: ties are not broken by the lowest
  id. With note \<^verbatim>\<open>b\<close> at \<open>(0, 0)\<close> inserted before note \<^verbatim>\<open>a\<close> at \<open>(2, 0)\<close>, both are at
  distance 1 of \<open>(1, 0)\<close> (computed without any rounding, in doubles as well), and the
  result is \<^verbatim>\<open>b\<close>, whose id is the higher one.
\<close>

theorem nearest_tie_counterexample:
  "findNearestNote example_ops (Fin 1) (Fin 0) None
     (example_engine [(''b'', example_note ''b'' 0 0 ''B''), (''a'', example_note ''a'' 2 0 ''A'')])
     = Some (example_note ''b'' 0 0 ''B'')
   \<and> distanceTo example_ops (Fin 1) (Fin 0) (example_note ''a'' 2 0 ''A'')
       = distanceTo example_ops (Fin 1) (Fin 0) (example_note ''b'' 0 0 ''B'')
   \<and> n_id (example_note ''a'' 2 0 ''A'') = Some ''a''
   \<and> n_id (example_note ''b'' 0 0 ''B'') = Some ''b''
   \<and> ''a'' < ''b''"
proof -
  have "findNearestNote example_ops (Fin 1) (Fin 0) None
     (example_engine [(''b'', example_note ''b'' 0 0 ''B''), (''a'', example_note ''a'' 2 0 ''A'')])
     = Some (example_note ''b'' 0 0 ''B'')"
    by (simp add: findNearestNote_def example_engine_def distance_a distance_b)
  moreover have "n_id (example_note ''a'' 2 0 ''A'') = Some ''a''"
    "n_id (example_note ''b'' 0 0 ''B'') = Some ''b''"
    by (simp_all add: example_note_def)
  ultimately show ?thesis
    using id_a_before_b distance_a distance_b by simp
qed

theorem nearest_is_first_minimum_witness:
  "findNearestNote example_ops (Fin 100) (Fin 100) (Some (Fin 5))
     (example_engine [(''n1'', example_note ''n1'' 0 0 ''A''), (''n2'', example_note ''n2'' 10 0 ''B'')])
     = None
   \<and> findNearestNote example_ops (Fin 1) (Fin 0) (Some (Fin 100))
     (example_engine [(''n1'', example_note ''n1'' 0 0 ''A''), (''n2'', example_note ''n2'' 10 0 ''B'')])
     = Some (example_note ''n1'' 0 0 ''A'')
   \<and> findNearestNote example_ops (Fin 1) (Fin 0) None
     (example_engine [(''n1'', example_note ''n1'' 0 0 ''A''), (''n2'', example_note ''n2'' 10 0 ''B'')])
     = Some (example_note ''n1'' 0 0 ''A'')"
proof -
  let ?s = "example_engine [(''n1'', example_note ''n1'' 0 0 ''A''), (''n2'', example_note ''n2'' 10 0 ''B'')]"
  note inst = nearest_is_first_minimum [where s = ?s and ops = example_ops]
  have vals: "map snd (positions ?s) = [example_note ''n1'' 0 0 ''A'', example_note ''n2'' 10 0 ''B'']"
    by (simp add: example_engine_def)
  have far: "\<forall>p\<in>set (map snd (positions ?s)).
      \<not> js_less (distanceTo example_ops (Fin 100) (Fin 100) p) (Fin 5)"
    by (simp add: vals distanceTo_example sqrt_less_iff_square)
  with inst [where x = "Fin 100" and y = "Fin 100" and maxDistance = "Fin 5"]
  have none: "findNearestNote example_ops (Fin 100) (Fin 100) (Some (Fin 5)) ?s = None"
    by blast
  have near: "findNearestNote example_ops (Fin 1) (Fin 0) (Some (Fin 100)) ?s
      = Some (example_note ''n1'' 0 0 ''A'')"
    by (simp add: findNearestNote_def vals distanceTo_example sqrt_less_iff_square)
  with inst [where x = "Fin 1" and y = "Fin 0" and maxDistance = "Fin 100"]
  have "findNearestNote example_ops (Fin 1) (Fin 0) None ?s = Some (example_note ''n1'' 0 0 ''A'')"
    by simp
  with none near show ?thesis by simp
qed

subsection \<open>Loading the saved positions, twice\<close>

lemma documentUpdate_suppressed:
  "documentUpdate host now i u \<lparr>noSocket = True\<rparr> s =
     (case drawings s i of
        None \<Rightarrow> s
      | Some d \<Rightarrow> s\<lparr>drawings := (drawings s)(i \<mapsto> host i u d),
                      rendered := rendered s @ [Update i u]\<rparr>)"
  by (simp add: documentUpdate_def onNoteUpdate_def Let_def split: option.splits)


text \<open>One turn of the loop, as a function of the state.\<close>

lemma loadLoop_step:
  "loadLoop host now ((j, q) # es) s =
     loadLoop host now es
       (case drawings s j of
          None \<Rightarrow> s
        | Some d0 \<Rightarrow> if hasKeys (updateDataFor q d0)
                     then s\<lparr>drawings := (drawings s)(j \<mapsto> host j (updateDataFor q d0) d0),
                            rendered := rendered s @ [Update j (updateDataFor q d0)]\<rparr>
                     else s)"
  by (simp add: documentUpdate_suppressed Let_def split: option.splits)

lemma loadLoop_other_drawings:
  "i \<notin> fst ` set es \<Longrightarrow> drawings (loadLoop host now es s) i = drawings s i"
proof (induction es arbitrary: s)
  case Nil
  show ?case by simp
next
  case (Cons e es)
  obtain j p where e: "e = (j, p)" by (cases e)
  with Cons.prems have ne: "i \<noteq> j" and rest: "i \<notin> fst ` set es" by auto
  show ?case
    unfolding e loadLoop_step using ne
    by (simp add: Cons.IH [OF rest] split: option.splits)
qed








section \<open>Properties of the text truncation\<close>

lemma getDynamic_default:
  assumes "\<not> truthy (js_get (getBaseCharacterLimits setting) font)"
  shows "getDynamicCharacterLimits setting font fs =
     JObject
       [(''sticky'', JNumber (math_round (js_times (Fin 60) (js_divide BASE_FONT_SIZE fs)))),
        (''photo'', JNumber (math_round (js_times (Fin 15) (js_divide BASE_FONT_SIZE fs)))),
        (''index'', JNumber (math_round (js_times (Fin 200) (js_divide BASE_FONT_SIZE fs))))]"
  using assms
  by (simp add: getDynamicCharacterLimits_def defaultLimits_def Let_def)

lemma charLimit_sticky_base:
  assumes "\<not> truthy (js_get (getBaseCharacterLimits setting) font)"
  shows "charLimit setting font ''sticky'' (Fin 15) = Fin 60"
  by (simp add: charLimit_def getDynamic_default [OF assms] BASE_FONT_SIZE_def)




text \<open>
  C5, amended. When the limit the code computes is a natural number \<open>n\<close>, a text of length
  at most \<open>n\<close> is returned unchanged, and a longer text gives its first \<open>n\<close> characters with
  white space removed at both ends (\<^verbatim>\<open>String.prototype.trim\<close>), followed by \<^verbatim>\<open>...\<close>. In
  particular, for a sticky note at font size 15, where the limit is 60 (the configured
  limits having no entry for the font name), a text of length 80 gives its trimmed first
  60 characters and the ellipsis, and a text of length 40 is returned unchanged.
\<close>

theorem truncate_trims_both_ends:
  "(charLimit setting font noteType fs = Fin (real n) \<longrightarrow>
      truncateText setting text font noteType fs
        = (if length text \<le> n then text else trim (take n text) @ ''...''))
   \<and> (\<not> truthy (js_get (getBaseCharacterLimits setting) font) \<longrightarrow>
        charLimit setting font ''sticky'' (Fin 15) = Fin 60
        \<and> (length text = 80 \<longrightarrow>
             truncateText setting text font ''sticky'' (Fin 15) = trim (take 60 text) @ ''...'')
        \<and> (length text = 40 \<longrightarrow> truncateText setting text font ''sticky'' (Fin 15) = text))"
proof (intro conjI impI)
  assume "charLimit setting font noteType fs = Fin (real n)"
  then show "truncateText setting text font noteType fs
        = (if length text \<le> n then text else trim (take n text) @ ''...'')"
    by (simp add: truncateText_def Let_def)
next
  assume plain: "\<not> truthy (js_get (getBaseCharacterLimits setting) font)"
  then show lim: "charLimit setting font ''sticky'' (Fin 15) = Fin 60"
    by (rule charLimit_sticky_base)
  {
    assume "length text = 80"
    with lim show "truncateText setting text font ''sticky'' (Fin 15) = trim (take 60 text) @ ''...''"
      by (simp add: truncateText_def Let_def)
  }
  {
    assume "length text = 40"
    with lim show "truncateText setting text font ''sticky'' (Fin 15) = text"
      by (simp add: truncateText_def Let_def)
  }
qed

lemma charLimit_small: "charLimit JUndefined ''Arial'' ''sticky'' (Fin 150) = Fin 6"
  by (simp add: charLimit_def getDynamicCharacterLimits_def getBaseCharacterLimits_def
      defaultLimits_def BASE_FONT_SIZE_def Let_def)

lemma trim_example: "trim (take 6 '' abcdefgh'') = ''abcde''"
  by code_simp

lemma trimEnd_example: "trimEnd (take 6 '' abcdefgh'') = '' abcde''"
  by code_simp

text \<open>
  C5, as the claim states it, fails on a text that starts with white space: \<^verbatim>\<open>trim\<close>
  removes the leading space too, so the result is not the first \<open>limit\<close> characters with
  only the trailing white space removed.
\<close>

theorem truncate_leading_space_counterexample:
  "charLimit JUndefined ''Arial'' ''sticky'' (Fin 150) = Fin 6
   \<and> truncateText JUndefined '' abcdefgh'' ''Arial'' ''sticky'' (Fin 150) = ''abcde...''
   \<and> spec_truncate 6 '' abcdefgh'' = '' abcde...''
   \<and> truncateText JUndefined '' abcdefgh'' ''Arial'' ''sticky'' (Fin 150)
       \<noteq> spec_truncate 6 '' abcdefgh''"
proof -
  have code: "truncateText JUndefined '' abcdefgh'' ''Arial'' ''sticky'' (Fin 150) = ''abcde...''"
    unfolding truncateText_def charLimit_small Let_def
    using trim_example by simp
  have spec: "spec_truncate 6 '' abcdefgh'' = '' abcde...''"
    unfolding spec_truncate_def using trimEnd_example by simp
  show ?thesis
    unfolding code spec using charLimit_small by simp
qed

theorem truncate_trims_both_ends_witness:
  "charLimit example_setting ''Arial'' ''sticky'' (Fin 150) = Fin (real 6)
   \<and> truncateText example_setting '' abc  defg'' ''Arial'' ''sticky'' (Fin 150) = ''abc...''
   \<and> \<not> truthy (js_get (getBaseCharacterLimits example_setting) ''Arial'')
   \<and> length (replicate 80 (CHR ''x'')) = 80
   \<and> truncateText example_setting (replicate 80 (CHR ''x'')) ''Arial'' ''sticky'' (Fin 15)
       = replicate 60 (CHR ''x'') @ ''...''
   \<and> length (replicate 40 (CHR ''x'')) = 40
   \<and> truncateText example_setting (replicate 40 (CHR ''x'')) ''Arial'' ''sticky'' (Fin 15)
       = replicate 40 (CHR ''x'')"
proof -
  have lim: "charLimit example_setting ''Arial'' ''sticky'' (Fin 150) = Fin (real 6)"
    by (simp add: charLimit_def getDynamicCharacterLimits_def getBaseCharacterLimits_def
        defaultLimits_def BASE_FONT_SIZE_def Let_def example_setting_def)
  have plain: "\<not> truthy (js_get (getBaseCharacterLimits example_setting) ''Arial'')"
    by (simp add: getBaseCharacterLimits_def example_setting_def)
  have cut: "trim (take 6 '' abc  defg'') = ''abc''"
    by code_simp
  have cut60: "trim (take 60 (replicate 80 (CHR ''x''))) = replicate 60 (CHR ''x'')"
    by code_simp
  have short: "truncateText example_setting '' abc  defg'' ''Arial'' ''sticky'' (Fin 150)
      = (if length '' abc  defg'' \<le> 6 then '' abc  defg'' else trim (take 6 '' abc  defg'') @ ''...'')"
    using truncate_trims_both_ends
      [of example_setting "''Arial''" "''sticky''" "Fin 150" 6 "'' abc  defg''"] lim
    by blast
  have long: "truncateText example_setting (replicate 80 (CHR ''x'')) ''Arial'' ''sticky'' (Fin 15)
      = trim (take 60 (replicate 80 (CHR ''x''))) @ ''...''"
    using truncate_trims_both_ends
      [of example_setting "''Arial''" "''sticky''" "Fin 15" 6 "replicate 80 (CHR ''x'')"] plain
    by simp
  have keep: "truncateText example_setting (replicate 40 (CHR ''x'')) ''Arial'' ''sticky'' (Fin 15)
      = replicate 40 (CHR ''x'')"
    using truncate_trims_both_ends
      [of example_setting "''Arial''" "''sticky''" "Fin 15" 6 "replicate 40 (CHR ''x'')"] plain
    by simp
  from short have short': "truncateText example_setting '' abc  defg'' ''Arial'' ''sticky'' (Fin 150)
      = ''abc...''"
    unfolding cut by simp
  show ?thesis
    using lim plain short' long keep unfolding cut60 by simp
qed

end
